theory Spec2Isabelle
  imports Complex_Main "HOL-Library.AList"
begin

section \<open>Data model\<close>

text \<open>
  The repository holds three Express/Mongoose backends:
  \<^item> \<^verbatim>\<open>src/unnamed/part_001\<close> (first document; "Backend inventario"): products, sales, manual
    stock adjustment, deletion;
  \<^item> \<^verbatim>\<open>src/unnamed/part_000\<close> ("Backend"): purchases and sales, with schemas that carry
    validators (\<^verbatim>\<open>required: true\<close>, \<^verbatim>\<open>min: 1\<close>);
  \<^item> \<^verbatim>\<open>src/backend/server.js\<close> ("Backend contabilidad"): purchases, schemas without validators.

  A JavaScript \<^verbatim>\<open>Number\<close> is modelled as an exact rational: the rounding of IEEE doubles,
  \<^verbatim>\<open>NaN\<close> and the infinities are outside the model, and every numeric field of a request is
  taken to hold a number. A property that depends on rounding, such as the value of
  \<^verbatim>\<open>total * 0.21\<close>, is therefore not stated in this theory. A Mongo \<^verbatim>\<open>ObjectId\<close> is a natural number. The \<^verbatim>\<open>fecha\<close> fields
  (defaulted to \<^verbatim>\<open>Date.now\<close>) are left out. A call to the store fails only as the schemas make
  it fail (a validator, the unique index on \<^verbatim>\<open>codigo\<close>); the photo store is a parameter of the
  handlers that use it.
\<close>

type_synonym number = rat

type_synonym object_id = nat

text \<open>
  \<^verbatim>\<open>productoSchema\<close> (the same fields in the three files). The prices, optional in the
  schema, are taken to be present.
\<close>

record producto =
  codigo :: string
  nombre :: string
  categoria :: string
  stock :: number
  precioCosto :: number
  precioVenta :: number
  proveedor :: string
  fotoUrl :: string
  fotoId :: string

text \<open>An element of \<^verbatim>\<open>req.body.productos\<close>, as the sale and purchase handlers read it.\<close>

record item =
  item_productoId :: object_id
  item_cantidad :: number
  item_precioUnitario :: number

text \<open>
  An element of the embedded \<^verbatim>\<open>productos\<close> array of \<^verbatim>\<open>ventaSchema\<close> and \<^verbatim>\<open>compraSchema\<close>;
  \<^verbatim>\<open>codigo\<close> and \<^verbatim>\<open>nombre\<close> are the snapshot taken from the product.
\<close>

record linea =
  productoId :: object_id
  linea_codigo :: string
  linea_nombre :: string
  cantidad :: number
  precioUnitario :: number
  subtotal :: number

text \<open>\<^verbatim>\<open>ventaSchema\<close> and \<^verbatim>\<open>compraSchema\<close>: the same three fields and a counterparty label.\<close>

record transaccion =
  productos :: "linea list"
  total :: number
  iva :: number

record venta = transaccion +
  cliente :: string

record compra = transaccion +
  compra_proveedor :: string

text \<open>
  The document store: a collection of products keyed by \<^verbatim>\<open>_id\<close>, and the sales and purchases
  saved so far, oldest first.
\<close>

record db =
  Producto :: "(object_id \<times> producto) list"
  Venta :: "venta list"
  Compra :: "compra list"

text \<open>
  What a handler sends: \<^verbatim>\<open>res.json(doc)\<close> (status 200) or
  \<^verbatim>\<open>res.status(n).json({ error: message })\<close>. The exceptions that reach a \<^verbatim>\<open>catch (err)\<close>
  are a Mongoose validation error, the \<^verbatim>\<open>TypeError\<close> of reading a property of \<^verbatim>\<open>null\<close>, a
  failed Cloudinary call, and a MongoDB server error with its numeric \<^verbatim>\<open>code\<close>.
\<close>

datatype exn = ValidationError | TypeError | CloudinaryError | MongoServerError nat

datatype message =
    Producto_no_encontrado
  | Stock_insuficiente_para string
  | Stock_insuficiente
  | Codigo_ya_existe
  | Err_message exn

datatype 'a response = Json 'a | Status_json nat message

datatype mensaje = Producto_eliminado

section \<open>Store operations\<close>

definition findById :: "(object_id \<times> 'a) list \<Rightarrow> object_id \<Rightarrow> 'a option" where
  "findById coll i = map_of coll i"

text \<open>
  \<^verbatim>\<open>doc.save()\<close> on a document that was read from the collection. The collection holds
  documents that were stored through their schema, so saving one again after a change of its
  stock passes the validators.
\<close>

definition save :: "object_id \<Rightarrow> 'a \<Rightarrow> (object_id \<times> 'a) list \<Rightarrow> (object_id \<times> 'a) list" where
  "save i doc coll = AList.update i doc coll"

text \<open>\<^verbatim>\<open>doc.deleteOne()\<close>.\<close>

definition deleteOne :: "object_id \<Rightarrow> (object_id \<times> 'a) list \<Rightarrow> (object_id \<times> 'a) list" where
  "deleteOne i coll = AList.delete i coll"

text \<open>The server-assigned identifier of a new document: one that no document has.\<close>

definition new_id :: "(object_id \<times> 'a) list \<Rightarrow> object_id" where
  "new_id coll = Suc (fold max (map fst coll) 0)"

text \<open>\<^verbatim>\<open>x || d\<close> on an optional string: \<^verbatim>\<open>undefined\<close> and the empty string are falsy.\<close>

definition js_or :: "string option \<Rightarrow> string \<Rightarrow> string" where
  "js_or x d = (case x of None \<Rightarrow> d | Some v \<Rightarrow> if v = [] then d else v)"

section \<open>Sales\<close>

text \<open>
  The \<^verbatim>\<open>for (const item of productos)\<close> loop of \<^verbatim>\<open>POST /api/ventas\<close> in part_001 (lines 90-110).
  The result is the product collection as the loop leaves it, and either the early
  \<^verbatim>\<open>return res.status(..)\<close> or the accumulators \<^verbatim>\<open>total\<close> and \<^verbatim>\<open>productosVendidos\<close>.
  The document that \<^verbatim>\<open>findById\<close> returns has the identifier that was looked up, so
  \<^verbatim>\<open>producto._id\<close> is \<^verbatim>\<open>item.productoId\<close>.
\<close>

fun ventas_loop_p001 ::
  "(object_id \<times> producto) list \<Rightarrow> item list \<Rightarrow> number \<Rightarrow> linea list \<Rightarrow>
     (object_id \<times> producto) list \<times> (nat \<times> message + number \<times> linea list)" where
  "ventas_loop_p001 ps [] tot vendidos = (ps, Inr (tot, vendidos))"
| "ventas_loop_p001 ps (it # rest) tot vendidos =
     (case findById ps (item_productoId it) of
        None \<Rightarrow> (ps, Inl (404, Producto_no_encontrado))
      | Some p \<Rightarrow>
          if stock p < item_cantidad it
          then (ps, Inl (400, Stock_insuficiente_para (nombre p)))
          else ventas_loop_p001
                 (save (item_productoId it) (p\<lparr>stock := stock p - item_cantidad it\<rparr>) ps)
                 rest
                 (tot + precioVenta p * item_cantidad it)
                 (vendidos @ [\<lparr>productoId = item_productoId it, linea_codigo = codigo p,
                     linea_nombre = nombre p, cantidad = item_cantidad it,
                     precioUnitario = precioVenta p,
                     subtotal = precioVenta p * item_cantidad it\<rparr>]))"

text \<open>
  \<^verbatim>\<open>POST /api/ventas\<close> of part_001 (lines 84-127). Its \<^verbatim>\<open>ventaSchema\<close> has no validator, so
  \<^verbatim>\<open>nuevaVenta.save()\<close> stores the document.
\<close>

definition post_ventas_p001 :: "db \<Rightarrow> item list \<Rightarrow> string option \<Rightarrow> db \<times> venta response" where
  "post_ventas_p001 s req_productos req_cliente =
     (case ventas_loop_p001 (Producto s) req_productos 0 [] of
        (ps, Inl (st, msg)) \<Rightarrow> (s\<lparr>Producto := ps\<rparr>, Status_json st msg)
      | (ps, Inr (tot, vendidos)) \<Rightarrow>
          (let nuevaVenta = \<lparr>productos = vendidos, total = tot + tot * 0.21, iva = tot * 0.21,
                              cliente = js_or req_cliente ''Mostrador''\<rparr>
           in (s\<lparr>Producto := ps, Venta := Venta s @ [nuevaVenta]\<rparr>, Json nuevaVenta)))"

text \<open>
  The loop of \<^verbatim>\<open>POST /api/ventas\<close> in part_000 (lines 153-172), commented there as
  "similar a compras, con resta de stock": the price is the request's \<^verbatim>\<open>item.precioUnitario\<close>.
\<close>

fun ventas_loop_p000 ::
  "(object_id \<times> producto) list \<Rightarrow> item list \<Rightarrow> number \<Rightarrow> linea list \<Rightarrow>
     (object_id \<times> producto) list \<times> (nat \<times> message + number \<times> linea list)" where
  "ventas_loop_p000 ps [] tot vendidos = (ps, Inr (tot, vendidos))"
| "ventas_loop_p000 ps (it # rest) tot vendidos =
     (case findById ps (item_productoId it) of
        None \<Rightarrow> (ps, Inl (404, Producto_no_encontrado))
      | Some p \<Rightarrow>
          if stock p < item_cantidad it
          then (ps, Inl (400, Stock_insuficiente))
          else ventas_loop_p000
                 (save (item_productoId it) (p\<lparr>stock := stock p - item_cantidad it\<rparr>) ps)
                 rest
                 (tot + item_precioUnitario it * item_cantidad it)
                 (vendidos @ [\<lparr>productoId = item_productoId it, linea_codigo = codigo p,
                     linea_nombre = nombre p, cantidad = item_cantidad it,
                     precioUnitario = item_precioUnitario it,
                     subtotal = item_precioUnitario it * item_cantidad it\<rparr>]))"

text \<open>
  The validators that \<^verbatim>\<open>ventaSchema\<close> and \<^verbatim>\<open>compraSchema\<close> of part_000 (lines 38-69) put on
  a document: every line needs a non-empty \<^verbatim>\<open>codigo\<close> and \<^verbatim>\<open>nombre\<close> (\<^verbatim>\<open>required\<close> on a string)
  and a \<^verbatim>\<open>cantidad\<close> of at least 1 (\<^verbatim>\<open>min: 1\<close>). The other required fields are numbers and an
  identifier that the handlers always supply. Mongoose runs the validators in \<^verbatim>\<open>save()\<close>, which
  throws a validation error when one fails.
\<close>

definition valid_linea_p000 :: "linea \<Rightarrow> bool" where
  "valid_linea_p000 l \<longleftrightarrow> linea_codigo l \<noteq> [] \<and> linea_nombre l \<noteq> [] \<and> 1 \<le> cantidad l"

definition validate_p000 :: "linea list \<Rightarrow> bool" where
  "validate_p000 ls = list_all valid_linea_p000 ls"

text \<open>\<^verbatim>\<open>POST /api/ventas\<close> of part_000 (lines 147-189).\<close>

definition post_ventas_p000 :: "db \<Rightarrow> item list \<Rightarrow> string option \<Rightarrow> db \<times> venta response" where
  "post_ventas_p000 s req_productos req_cliente =
     (case ventas_loop_p000 (Producto s) req_productos 0 [] of
        (ps, Inl (st, msg)) \<Rightarrow> (s\<lparr>Producto := ps\<rparr>, Status_json st msg)
      | (ps, Inr (tot, vendidos)) \<Rightarrow>
          (let nuevaVenta = \<lparr>productos = vendidos, total = tot + tot * 0.21, iva = tot * 0.21,
                              cliente = js_or req_cliente ''Desconocido''\<rparr>
           in if validate_p000 vendidos
              then (s\<lparr>Producto := ps, Venta := Venta s @ [nuevaVenta]\<rparr>, Json nuevaVenta)
              else (s\<lparr>Producto := ps\<rparr>, Status_json 500 (Err_message ValidationError))))"

section \<open>Purchases\<close>

text \<open>
  The loop of \<^verbatim>\<open>POST /api/compras\<close>: part_000 lines 104-122 and server.js lines 100-118, the
  same statements in both.
\<close>

fun compras_loop ::
  "(object_id \<times> producto) list \<Rightarrow> item list \<Rightarrow> number \<Rightarrow> linea list \<Rightarrow>
     (object_id \<times> producto) list \<times> (nat \<times> message + number \<times> linea list)" where
  "compras_loop ps [] tot comprados = (ps, Inr (tot, comprados))"
| "compras_loop ps (it # rest) tot comprados =
     (case findById ps (item_productoId it) of
        None \<Rightarrow> (ps, Inl (404, Producto_no_encontrado))
      | Some p \<Rightarrow>
          compras_loop
            (save (item_productoId it) (p\<lparr>stock := stock p + item_cantidad it\<rparr>) ps)
            rest
            (tot + item_precioUnitario it * item_cantidad it)
            (comprados @ [\<lparr>productoId = item_productoId it, linea_codigo = codigo p,
                linea_nombre = nombre p, cantidad = item_cantidad it,
                precioUnitario = item_precioUnitario it,
                subtotal = item_precioUnitario it * item_cantidad it\<rparr>]))"

text \<open>\<^verbatim>\<open>POST /api/compras\<close> of server.js (lines 94-135): \<^verbatim>\<open>compraSchema\<close> has no validator.\<close>

definition post_compras_server :: "db \<Rightarrow> item list \<Rightarrow> string option \<Rightarrow> db \<times> compra response" where
  "post_compras_server s req_productos req_proveedor =
     (case compras_loop (Producto s) req_productos 0 [] of
        (ps, Inl (st, msg)) \<Rightarrow> (s\<lparr>Producto := ps\<rparr>, Status_json st msg)
      | (ps, Inr (tot, comprados)) \<Rightarrow>
          (let nuevaCompra = \<lparr>productos = comprados, total = tot + tot * 0.21, iva = tot * 0.21,
                               compra_proveedor = js_or req_proveedor ''Desconocido''\<rparr>
           in (s\<lparr>Producto := ps, Compra := Compra s @ [nuevaCompra]\<rparr>, Json nuevaCompra)))"

text \<open>\<^verbatim>\<open>POST /api/compras\<close> of part_000 (lines 98-139): \<^verbatim>\<open>compraSchema\<close> validates.\<close>

definition post_compras_p000 :: "db \<Rightarrow> item list \<Rightarrow> string option \<Rightarrow> db \<times> compra response" where
  "post_compras_p000 s req_productos req_proveedor =
     (case compras_loop (Producto s) req_productos 0 [] of
        (ps, Inl (st, msg)) \<Rightarrow> (s\<lparr>Producto := ps\<rparr>, Status_json st msg)
      | (ps, Inr (tot, comprados)) \<Rightarrow>
          (let nuevaCompra = \<lparr>productos = comprados, total = tot + tot * 0.21, iva = tot * 0.21,
                               compra_proveedor = js_or req_proveedor ''Desconocido''\<rparr>
           in if validate_p000 comprados
              then (s\<lparr>Producto := ps, Compra := Compra s @ [nuevaCompra]\<rparr>, Json nuevaCompra)
              else (s\<lparr>Producto := ps\<rparr>, Status_json 500 (Err_message ValidationError))))"

section \<open>Products\<close>

text \<open>
  \<^verbatim>\<open>PATCH /api/productos/:id/stock\<close> of part_001 (lines 160-171). \<^verbatim>\<open>findById\<close> answers \<^verbatim>\<open>null\<close>
  for an unknown identifier; \<^verbatim>\<open>producto.stock\<close> then throws a \<^verbatim>\<open>TypeError\<close>, which the
  \<^verbatim>\<open>catch\<close> turns into status 500.
\<close>

definition patch_stock :: "db \<Rightarrow> object_id \<Rightarrow> number \<Rightarrow> db \<times> producto response" where
  "patch_stock s i req_cantidad =
     (case findById (Producto s) i of
        None \<Rightarrow> (s, Status_json 500 (Err_message TypeError))
      | Some p \<Rightarrow>
          (let p1 = p\<lparr>stock := stock p + req_cantidad\<rparr>;
               p2 = (if stock p1 < 0 then p1\<lparr>stock := 0\<rparr> else p1)
           in (s\<lparr>Producto := save i p2 (Producto s)\<rparr>, Json p2)))"

text \<open>
  \<^verbatim>\<open>DELETE /api/productos/:id\<close> of part_001 (lines 174-183). The photo store is a parameter:
  \<^verbatim>\<open>destroy fid\<close> says whether \<^verbatim>\<open>cloudinary.uploader.destroy\<close> returns (\<open>True\<close>) or throws.
\<close>

definition delete_producto ::
  "(string \<Rightarrow> bool) \<Rightarrow> db \<Rightarrow> object_id \<Rightarrow> db \<times> mensaje response" where
  "delete_producto destroy s i =
     (case findById (Producto s) i of
        None \<Rightarrow> (s, Status_json 500 (Err_message TypeError))
      | Some p \<Rightarrow>
          if fotoId p \<noteq> [] \<and> \<not> destroy (fotoId p)
          then (s, Status_json 500 (Err_message CloudinaryError))
          else (s\<lparr>Producto := deleteOne i (Producto s)\<rparr>, Json Producto_eliminado))"

text \<open>The body of \<^verbatim>\<open>POST /api/productos\<close>; an absent string field is the empty string.\<close>

record producto_body =
  body_codigo :: string
  body_nombre :: string
  body_categoria :: string
  body_stock :: "number option"
  body_precioCosto :: number
  body_precioVenta :: number
  body_proveedor :: string
  base64Foto :: string

text \<open>
  The \<^verbatim>\<open>try\<close> block of \<^verbatim>\<open>POST /api/productos\<close> of part_001 (lines 40-58). \<^verbatim>\<open>upload\<close> is the photo
  store: \<open>None\<close> when \<^verbatim>\<open>cloudinary.uploader.upload\<close> throws, else the \<^verbatim>\<open>secure_url\<close> and the
  \<^verbatim>\<open>public_id\<close>. \<^verbatim>\<open>nuevo.save()\<close> first runs the validators of \<^verbatim>\<open>productoSchema\<close>
  (\<^verbatim>\<open>codigo\<close> and \<^verbatim>\<open>nombre\<close> are required) and then inserts, where the unique index on
  \<^verbatim>\<open>codigo\<close> answers a duplicate with error code 11000.
\<close>

definition try_post_productos ::
  "(string \<Rightarrow> (string \<times> string) option) \<Rightarrow> db \<Rightarrow> producto_body \<Rightarrow> exn + db \<times> producto" where
  "try_post_productos upload s body =
     (case (if base64Foto body \<noteq> [] then upload (base64Foto body) else Some ([], [])) of
        None \<Rightarrow> Inl CloudinaryError
      | Some (url, fid) \<Rightarrow>
          (let nuevo = \<lparr>codigo = body_codigo body, nombre = body_nombre body,
                         categoria = body_categoria body,
                         stock = (case body_stock body of None \<Rightarrow> 0 | Some n \<Rightarrow> n),
                         precioCosto = body_precioCosto body,
                         precioVenta = body_precioVenta body,
                         proveedor = body_proveedor body, fotoUrl = url, fotoId = fid\<rparr>
           in if codigo nuevo = [] \<or> nombre nuevo = [] then Inl ValidationError
              else if list_ex (\<lambda>(i, p). codigo p = codigo nuevo) (Producto s)
              then Inl (MongoServerError 11000)
              else Inr (s\<lparr>Producto := Producto s @ [(new_id (Producto s), nuevo)]\<rparr>, nuevo)))"

text \<open>\<^verbatim>\<open>err.code\<close>: only a MongoDB server error has one.\<close>

fun err_code :: "exn \<Rightarrow> nat option" where
  "err_code (MongoServerError c) = Some c"
| "err_code _ = None"

text \<open>\<^verbatim>\<open>POST /api/productos\<close> of part_001 (lines 38-63), with its \<^verbatim>\<open>catch\<close> clause.\<close>

definition post_productos ::
  "(string \<Rightarrow> (string \<times> string) option) \<Rightarrow> db \<Rightarrow> producto_body \<Rightarrow> db \<times> producto response" where
  "post_productos upload s body =
     (case try_post_productos upload s body of
        Inr (s', nuevo) \<Rightarrow> (s', Json nuevo)
      | Inl err \<Rightarrow>
          if err_code err = Some 11000 then (s, Status_json 400 Codigo_ya_existe)
          else (s, Status_json 500 (Err_message err)))"

section \<open>Vocabulary of the properties\<close>


text \<open>The stock of a product in a collection, when it is there.\<close>

definition stock_of :: "(object_id \<times> producto) list \<Rightarrow> object_id \<Rightarrow> number option" where
  "stock_of ps k = map_option stock (findById ps k)"

text \<open>Two collections hold the same products up to their stock.\<close>

definition misma_ficha :: "(object_id \<times> producto) list \<Rightarrow> (object_id \<times> producto) list \<Rightarrow> bool" where
  "misma_ficha ps ps' \<longleftrightarrow>
     (\<forall>k. map_option (\<lambda>p. p\<lparr>stock := 0\<rparr>) (findById ps' k) =
          map_option (\<lambda>p. p\<lparr>stock := 0\<rparr>) (findById ps k))"

text \<open>
  The line that the purchase loop, and the sale loop of part_000, push for an item of the
  request, read against the collection the handler started from.
\<close>

definition linea_de_compra :: "(object_id \<times> producto) list \<Rightarrow> item \<Rightarrow> linea \<Rightarrow> bool" where
  "linea_de_compra ps it l \<longleftrightarrow>
     productoId l = item_productoId it \<and> cantidad l = item_cantidad it \<and>
     precioUnitario l = item_precioUnitario it \<and>
     subtotal l = item_precioUnitario it * item_cantidad it \<and>
     (\<exists>p. findById ps (item_productoId it) = Some p \<and>
          linea_codigo l = codigo p \<and> linea_nombre l = nombre p)"

text \<open>The line that the sale loop of part_001 pushes for an item of the request.\<close>

definition linea_de_venta :: "(object_id \<times> producto) list \<Rightarrow> item \<Rightarrow> linea \<Rightarrow> bool" where
  "linea_de_venta ps it l \<longleftrightarrow>
     productoId l = item_productoId it \<and> cantidad l = item_cantidad it \<and>
     (\<exists>p. findById ps (item_productoId it) = Some p \<and>
          linea_codigo l = codigo p \<and> linea_nombre l = nombre p \<and>
          precioUnitario l = precioVenta p \<and>
          subtotal l = precioVenta p * item_cantidad it)"

text \<open>
  The stored products carry the code and the name that \<^verbatim>\<open>productoSchema\<close> requires.
  \<^verbatim>\<open>POST /api/productos\<close> stores no other product, the handlers keep the property (lemmas
  below), and \<^verbatim>\<open>producto.save()\<close> runs these validators again: the properties of the sale and
  purchase handlers are stated for such stores.
\<close>

definition productos_validos :: "(object_id \<times> producto) list \<Rightarrow> bool" where
  "productos_validos ps = list_all (\<lambda>(i, p). codigo p \<noteq> [] \<and> nombre p \<noteq> []) ps"



text \<open>
  The product of the specification's scenarios (code A1, stock 10, sale price 100), a store
  that holds it under identifier 1, and requests for it.
\<close>

definition producto_A1 :: producto where
  "producto_A1 = \<lparr>codigo = ''A1'', nombre = ''Tornillo'', categoria = ''Ferreteria'', stock = 10,
     precioCosto = 60, precioVenta = 100, proveedor = ''ACME'', fotoUrl = [], fotoId = []\<rparr>"

definition db_A1 :: db where
  "db_A1 = \<lparr>Producto = [(1, producto_A1)], Venta = [], Compra = []\<rparr>"

definition pedir :: "object_id \<Rightarrow> number \<Rightarrow> number \<Rightarrow> item" where
  "pedir i n price = \<lparr>item_productoId = i, item_cantidad = n, item_precioUnitario = price\<rparr>"

text \<open>
  The same store with 5 units of A1, a photo store whose upload always fails and one whose
  upload always succeeds, and request bodies for \<^verbatim>\<open>POST /api/productos\<close>: A1 again and a new
  product B2.
\<close>

definition db_A1_5 :: db where
  "db_A1_5 = \<lparr>Producto = [(1, producto_A1\<lparr>stock := 5\<rparr>)], Venta = [], Compra = []\<rparr>"





definition producto_B2 :: producto where
  "producto_B2 = \<lparr>codigo = ''B2'', nombre = ''Tuerca'', categoria = [], stock = 0,
     precioCosto = 2, precioVenta = 3, proveedor = [], fotoUrl = [], fotoId = []\<rparr>"

section \<open>Facts about the store and the loops\<close>

lemma findById_save: "findById (save i d ps) k = (if k = i then Some d else findById ps k)"
  by (simp add: findById_def save_def update_conv')



subsection \<open>A loop over a concatenation runs the first part, then the second\<close>

lemma ventas_loop_p001_append:
  "ventas_loop_p001 ps (xs @ ys) tot acc =
     (case ventas_loop_p001 ps xs tot acc of
        (ps', Inl e) \<Rightarrow> (ps', Inl e)
      | (ps', Inr (tot', acc')) \<Rightarrow> ventas_loop_p001 ps' ys tot' acc')"
  by (induction xs arbitrary: ps tot acc) (auto split: option.splits)

lemma ventas_loop_p000_append:
  "ventas_loop_p000 ps (xs @ ys) tot acc =
     (case ventas_loop_p000 ps xs tot acc of
        (ps', Inl e) \<Rightarrow> (ps', Inl e)
      | (ps', Inr (tot', acc')) \<Rightarrow> ventas_loop_p000 ps' ys tot' acc')"
  by (induction xs arbitrary: ps tot acc) (auto split: option.splits)


subsection \<open>Only the stock of a product changes\<close>


lemma misma_ficha_save:
  "findById ps i = Some p \<Longrightarrow> misma_ficha ps (save i (p\<lparr>stock := x\<rparr>) ps)"
  by (simp add: misma_ficha_def findById_save)


lemma misma_ficha_Some:
  assumes m: "misma_ficha ps ps'" and q: "findById ps' k = Some q"
  shows "\<exists>p. findById ps k = Some p \<and> codigo p = codigo q \<and> nombre p = nombre q \<and>
           precioVenta p = precioVenta q"
proof -
  from m have "map_option (\<lambda>p. p\<lparr>stock := 0\<rparr>) (findById ps' k) =
      map_option (\<lambda>p. p\<lparr>stock := 0\<rparr>) (findById ps k)"
    by (simp add: misma_ficha_def)
  with q obtain p where p: "findById ps k = Some p" and e: "p\<lparr>stock := 0\<rparr> = q\<lparr>stock := 0\<rparr>"
    by (cases "findById ps k") auto
  from e have "codigo (p\<lparr>stock := 0\<rparr>) = codigo (q\<lparr>stock := 0\<rparr>)"
    "nombre (p\<lparr>stock := 0\<rparr>) = nombre (q\<lparr>stock := 0\<rparr>)"
    "precioVenta (p\<lparr>stock := 0\<rparr>) = precioVenta (q\<lparr>stock := 0\<rparr>)"
    by simp_all
  with p show ?thesis by simp
qed





subsection \<open>The stock after a loop that ran to its end\<close>




subsection \<open>A purchase loop stops only at a missing product\<close>


subsection \<open>The lines of a loop that ran to its end\<close>

lemma linea_de_compra_misma_ficha:
  assumes m: "misma_ficha ps ps1" and l: "linea_de_compra ps1 it l"
  shows "linea_de_compra ps it l"
proof -
  from l obtain q where q: "findById ps1 (item_productoId it) = Some q"
      and lq: "linea_codigo l = codigo q" "linea_nombre l = nombre q"
    by (auto simp: linea_de_compra_def)
  from misma_ficha_Some [OF m q] obtain p where "findById ps (item_productoId it) = Some p"
      "codigo p = codigo q" "nombre p = nombre q"
    by auto
  with l lq show ?thesis
    by (simp add: linea_de_compra_def)
qed

lemma linea_de_venta_misma_ficha:
  assumes m: "misma_ficha ps ps1" and l: "linea_de_venta ps1 it l"
  shows "linea_de_venta ps it l"
proof -
  from l obtain q where q: "findById ps1 (item_productoId it) = Some q"
      and lq: "linea_codigo l = codigo q" "linea_nombre l = nombre q"
        "precioUnitario l = precioVenta q" "subtotal l = precioVenta q * item_cantidad it"
    by (auto simp: linea_de_venta_def)
  from misma_ficha_Some [OF m q] obtain p where "findById ps (item_productoId it) = Some p"
      "codigo p = codigo q" "nombre p = nombre q" "precioVenta p = precioVenta q"
    by auto
  with l lq show ?thesis
    by (simp add: linea_de_venta_def)
qed

lemma compras_loop_lines:
  "compras_loop ps its tot acc = (ps', Inr (t, ls)) \<Longrightarrow>
     \<exists>new. ls = acc @ new \<and> t = tot + sum_list (map subtotal new) \<and>
       list_all2 (linea_de_compra ps) its new"
proof (induction its arbitrary: ps tot acc)
  case Nil
  then show ?case by simp
next
  case (Cons it its)
  from Cons.prems obtain p where p: "findById ps (item_productoId it) = Some p"
    by (auto split: option.splits)
  let ?l = "\<lparr>productoId = item_productoId it, linea_codigo = codigo p,
                linea_nombre = nombre p, cantidad = item_cantidad it,
                precioUnitario = item_precioUnitario it,
                subtotal = item_precioUnitario it * item_cantidad it\<rparr>"
  let ?ps1 = "save (item_productoId it) (p\<lparr>stock := stock p + item_cantidad it\<rparr>) ps"
  from Cons.prems p have
    "compras_loop ?ps1 its (tot + item_precioUnitario it * item_cantidad it) (acc @ [?l])
       = (ps', Inr (t, ls))"
    by simp
  from Cons.IH [OF this] obtain new where new:
    "ls = (acc @ [?l]) @ new"
    "t = tot + item_precioUnitario it * item_cantidad it + sum_list (map subtotal new)"
    "list_all2 (linea_de_compra ?ps1) its new"
    by blast
  from new(3) have "list_all2 (linea_de_compra ps) its new"
    by (rule list_all2_mono) (rule linea_de_compra_misma_ficha [OF misma_ficha_save [OF p]])
  moreover from p have "linea_de_compra ps it ?l"
    by (simp add: linea_de_compra_def)
  ultimately have "list_all2 (linea_de_compra ps) (it # its) (?l # new)"
    by simp
  with new(1,2) show ?case
    by (intro exI [of _ "?l # new"]) simp
qed

lemma ventas_loop_p000_lines:
  "ventas_loop_p000 ps its tot acc = (ps', Inr (t, ls)) \<Longrightarrow>
     \<exists>new. ls = acc @ new \<and> t = tot + sum_list (map subtotal new) \<and>
       list_all2 (linea_de_compra ps) its new"
proof (induction its arbitrary: ps tot acc)
  case Nil
  then show ?case by simp
next
  case (Cons it its)
  from Cons.prems obtain p where p: "findById ps (item_productoId it) = Some p"
      and ok: "\<not> stock p < item_cantidad it"
    by (auto split: option.splits if_splits)
  let ?l = "\<lparr>productoId = item_productoId it, linea_codigo = codigo p,
                linea_nombre = nombre p, cantidad = item_cantidad it,
                precioUnitario = item_precioUnitario it,
                subtotal = item_precioUnitario it * item_cantidad it\<rparr>"
  let ?ps1 = "save (item_productoId it) (p\<lparr>stock := stock p - item_cantidad it\<rparr>) ps"
  from Cons.prems p ok have
    "ventas_loop_p000 ?ps1 its (tot + item_precioUnitario it * item_cantidad it) (acc @ [?l])
       = (ps', Inr (t, ls))"
    by simp
  from Cons.IH [OF this] obtain new where new:
    "ls = (acc @ [?l]) @ new"
    "t = tot + item_precioUnitario it * item_cantidad it + sum_list (map subtotal new)"
    "list_all2 (linea_de_compra ?ps1) its new"
    by blast
  from new(3) have "list_all2 (linea_de_compra ps) its new"
    by (rule list_all2_mono) (rule linea_de_compra_misma_ficha [OF misma_ficha_save [OF p]])
  moreover from p have "linea_de_compra ps it ?l"
    by (simp add: linea_de_compra_def)
  ultimately have "list_all2 (linea_de_compra ps) (it # its) (?l # new)"
    by simp
  with new(1,2) show ?case
    by (intro exI [of _ "?l # new"]) simp
qed

lemma ventas_loop_p001_lines:
  "ventas_loop_p001 ps its tot acc = (ps', Inr (t, ls)) \<Longrightarrow>
     \<exists>new. ls = acc @ new \<and> t = tot + sum_list (map subtotal new) \<and>
       list_all2 (linea_de_venta ps) its new"
proof (induction its arbitrary: ps tot acc)
  case Nil
  then show ?case by simp
next
  case (Cons it its)
  from Cons.prems obtain p where p: "findById ps (item_productoId it) = Some p"
      and ok: "\<not> stock p < item_cantidad it"
    by (auto split: option.splits if_splits)
  let ?l = "\<lparr>productoId = item_productoId it, linea_codigo = codigo p,
                linea_nombre = nombre p, cantidad = item_cantidad it,
                precioUnitario = precioVenta p,
                subtotal = precioVenta p * item_cantidad it\<rparr>"
  let ?ps1 = "save (item_productoId it) (p\<lparr>stock := stock p - item_cantidad it\<rparr>) ps"
  from Cons.prems p ok have
    "ventas_loop_p001 ?ps1 its (tot + precioVenta p * item_cantidad it) (acc @ [?l])
       = (ps', Inr (t, ls))"
    by simp
  from Cons.IH [OF this] obtain new where new:
    "ls = (acc @ [?l]) @ new"
    "t = tot + precioVenta p * item_cantidad it + sum_list (map subtotal new)"
    "list_all2 (linea_de_venta ?ps1) its new"
    by blast
  from new(3) have "list_all2 (linea_de_venta ps) its new"
    by (rule list_all2_mono) (rule linea_de_venta_misma_ficha [OF misma_ficha_save [OF p]])
  moreover from p have "linea_de_venta ps it ?l"
    by (simp add: linea_de_venta_def)
  ultimately have "list_all2 (linea_de_venta ps) (it # its) (?l # new)"
    by simp
  with new(1,2) show ?case
    by (intro exI [of _ "?l # new"]) simp
qed

section \<open>Facts about the handlers\<close>

lemma post_ventas_p001_Json:
  assumes "post_ventas_p001 s its c = (s', Json v)"
  shows "\<exists>ps' t. ventas_loop_p001 (Producto s) its 0 [] = (ps', Inr (t, productos v)) \<and>
           s' = s\<lparr>Producto := ps', Venta := Venta s @ [v]\<rparr> \<and>
           total v = t + t * 0.21 \<and> iva v = t * 0.21 \<and> cliente v = js_or c ''Mostrador''"
  using assms
  by (auto simp: post_ventas_p001_def Let_def split: prod.splits sum.splits)

lemma post_ventas_p000_Json:
  assumes "post_ventas_p000 s its c = (s', Json v)"
  shows "\<exists>ps' t. ventas_loop_p000 (Producto s) its 0 [] = (ps', Inr (t, productos v)) \<and>
           s' = s\<lparr>Producto := ps', Venta := Venta s @ [v]\<rparr> \<and>
           total v = t + t * 0.21 \<and> iva v = t * 0.21 \<and> cliente v = js_or c ''Desconocido'' \<and>
           validate_p000 (productos v)"
  using assms
  by (auto simp: post_ventas_p000_def Let_def split: prod.splits sum.splits if_splits)

lemma post_compras_server_Json:
  assumes "post_compras_server s its c = (s', Json v)"
  shows "\<exists>ps' t. compras_loop (Producto s) its 0 [] = (ps', Inr (t, productos v)) \<and>
           s' = s\<lparr>Producto := ps', Compra := Compra s @ [v]\<rparr> \<and>
           total v = t + t * 0.21 \<and> iva v = t * 0.21 \<and>
           compra_proveedor v = js_or c ''Desconocido''"
  using assms
  by (auto simp: post_compras_server_def Let_def split: prod.splits sum.splits)

lemma post_compras_p000_Json:
  assumes "post_compras_p000 s its c = (s', Json v)"
  shows "\<exists>ps' t. compras_loop (Producto s) its 0 [] = (ps', Inr (t, productos v)) \<and>
           s' = s\<lparr>Producto := ps', Compra := Compra s @ [v]\<rparr> \<and>
           total v = t + t * 0.21 \<and> iva v = t * 0.21 \<and>
           compra_proveedor v = js_or c ''Desconocido'' \<and> validate_p000 (productos v)"
  using assms
  by (auto simp: post_compras_p000_def Let_def split: prod.splits sum.splits if_splits)

subsection \<open>A loop that meets a missing product, or too little stock\<close>




lemma ventas_loop_p001_short:
  assumes pre: "ventas_loop_p001 ps pre tot acc = (ps', Inr r)"
    and p: "findById ps' (item_productoId it) = Some p" and short: "stock p < item_cantidad it"
  shows "ventas_loop_p001 ps (pre @ it # post) tot acc =
           (ps', Inl (400, Stock_insuficiente_para (nombre p)))"
  using assms by (cases r) (simp add: ventas_loop_p001_append)

lemma ventas_loop_p000_short:
  assumes pre: "ventas_loop_p000 ps pre tot acc = (ps', Inr r)"
    and p: "findById ps' (item_productoId it) = Some p" and short: "stock p < item_cantidad it"
  shows "ventas_loop_p000 ps (pre @ it # post) tot acc = (ps', Inl (400, Stock_insuficiente))"
  using assms by (cases r) (simp add: ventas_loop_p000_append)

subsection \<open>The stock after any purchase loop\<close>


subsection \<open>The handlers, from what their loop returns\<close>

lemma post_ventas_p001_Inl:
  "ventas_loop_p001 (Producto s) its 0 [] = (ps', Inl (st, m)) \<Longrightarrow>
     post_ventas_p001 s its c = (s\<lparr>Producto := ps'\<rparr>, Status_json st m)"
  by (simp add: post_ventas_p001_def)

lemma post_ventas_p000_Inl:
  "ventas_loop_p000 (Producto s) its 0 [] = (ps', Inl (st, m)) \<Longrightarrow>
     post_ventas_p000 s its c = (s\<lparr>Producto := ps'\<rparr>, Status_json st m)"
  by (simp add: post_ventas_p000_def)






subsection \<open>The validators of part_000 on the lines of a loop\<close>





subsection \<open>The stock after a purchase\<close>



subsection \<open>The sale loop of part_001 does not read the price of the request\<close>

lemma ventas_loop_p001_ignores_price:
  "ventas_loop_p001 ps (map (\<lambda>it. it\<lparr>item_precioUnitario := f it\<rparr>) its) tot acc =
     ventas_loop_p001 ps its tot acc"
  by (induction its arbitrary: ps tot acc) (simp_all split: option.splits)

lemma linea_de_venta_price:
  "list_all2 (linea_de_venta ps) its ls \<Longrightarrow>
     list_all2 (\<lambda>it l. \<exists>p. findById ps (item_productoId it) = Some p \<and>
        precioUnitario l = precioVenta p \<and> subtotal l = precioVenta p * item_cantidad it) its ls"
  by (erule list_all2_mono) (auto simp: linea_de_venta_def)

lemma linea_de_compra_price:
  "list_all2 (linea_de_compra ps) its ls \<Longrightarrow>
     list_all2 (\<lambda>it l. precioUnitario l = item_precioUnitario it \<and>
        subtotal l = item_precioUnitario it * item_cantidad it) its ls"
  by (erule list_all2_mono) (auto simp: linea_de_compra_def)

subsection \<open>Adjusting or deleting a product that does not exist\<close>

text \<open>
  Neither handler tests the result of \<^verbatim>\<open>findById\<close>, as the sale and purchase loops do: the
  \<^verbatim>\<open>TypeError\<close> of reading a property of \<^verbatim>\<open>null\<close> reaches the \<^verbatim>\<open>catch\<close>, which answers 500.
\<close>

lemma patch_stock_missing:
  "findById (Producto s) i = None \<Longrightarrow>
     patch_stock s i d = (s, Status_json 500 (Err_message TypeError))"
  by (simp add: patch_stock_def)

lemma delete_producto_missing:
  "findById (Producto s) i = None \<Longrightarrow>
     delete_producto destroy s i = (s, Status_json 500 (Err_message TypeError))"
  by (simp add: delete_producto_def)

subsection \<open>Evaluations on the store that holds A1\<close>

lemma venta_A1_3:
  "post_ventas_p001 db_A1 [pedir 1 3 5] None =
     (\<lparr>Producto = [(1, producto_A1\<lparr>stock := 7\<rparr>)],
       Venta = [\<lparr>productos = [\<lparr>productoId = 1, linea_codigo = ''A1'', linea_nombre = ''Tornillo'',
                   cantidad = 3, precioUnitario = 100, subtotal = 300\<rparr>],
                 total = 363, iva = 63, cliente = ''Mostrador''\<rparr>],
       Compra = []\<rparr>,
      Json \<lparr>productos = [\<lparr>productoId = 1, linea_codigo = ''A1'', linea_nombre = ''Tornillo'',
                   cantidad = 3, precioUnitario = 100, subtotal = 300\<rparr>],
            total = 363, iva = 63, cliente = ''Mostrador''\<rparr>)"
  by (simp add: post_ventas_p001_def db_A1_def producto_A1_def pedir_def findById_def save_def
      js_or_def Let_def)

lemma venta_p000_A1_3:
  "post_ventas_p000 db_A1 [pedir 1 3 5] None =
     (\<lparr>Producto = [(1, producto_A1\<lparr>stock := 7\<rparr>)],
       Venta = [\<lparr>productos = [\<lparr>productoId = 1, linea_codigo = ''A1'', linea_nombre = ''Tornillo'',
                   cantidad = 3, precioUnitario = 5, subtotal = 15\<rparr>],
                 total = 18.15, iva = 3.15, cliente = ''Desconocido''\<rparr>],
       Compra = []\<rparr>,
      Json \<lparr>productos = [\<lparr>productoId = 1, linea_codigo = ''A1'', linea_nombre = ''Tornillo'',
                   cantidad = 3, precioUnitario = 5, subtotal = 15\<rparr>],
            total = 18.15, iva = 3.15, cliente = ''Desconocido''\<rparr>)"
  by (simp add: post_ventas_p000_def db_A1_def producto_A1_def pedir_def findById_def save_def
      js_or_def Let_def validate_p000_def valid_linea_p000_def)

lemma compra_p000_A1_3:
  "post_compras_p000 db_A1 [pedir 1 3 5] None =
     (\<lparr>Producto = [(1, producto_A1\<lparr>stock := 13\<rparr>)], Venta = [],
       Compra = [\<lparr>productos = [\<lparr>productoId = 1, linea_codigo = ''A1'', linea_nombre = ''Tornillo'',
                   cantidad = 3, precioUnitario = 5, subtotal = 15\<rparr>],
                 total = 18.15, iva = 3.15, compra_proveedor = ''Desconocido''\<rparr>]\<rparr>,
      Json \<lparr>productos = [\<lparr>productoId = 1, linea_codigo = ''A1'', linea_nombre = ''Tornillo'',
                   cantidad = 3, precioUnitario = 5, subtotal = 15\<rparr>],
            total = 18.15, iva = 3.15, compra_proveedor = ''Desconocido''\<rparr>)"
  by (simp add: post_compras_p000_def db_A1_def producto_A1_def pedir_def findById_def save_def
      js_or_def Let_def validate_p000_def valid_linea_p000_def)

lemma compra_server_A1_3:
  "post_compras_server db_A1 [pedir 1 3 5] None =
     (\<lparr>Producto = [(1, producto_A1\<lparr>stock := 13\<rparr>)], Venta = [],
       Compra = [\<lparr>productos = [\<lparr>productoId = 1, linea_codigo = ''A1'', linea_nombre = ''Tornillo'',
                   cantidad = 3, precioUnitario = 5, subtotal = 15\<rparr>],
                 total = 18.15, iva = 3.15, compra_proveedor = ''Desconocido''\<rparr>]\<rparr>,
      Json \<lparr>productos = [\<lparr>productoId = 1, linea_codigo = ''A1'', linea_nombre = ''Tornillo'',
                   cantidad = 3, precioUnitario = 5, subtotal = 15\<rparr>],
            total = 18.15, iva = 3.15, compra_proveedor = ''Desconocido''\<rparr>)"
  by (simp add: post_compras_server_def db_A1_def producto_A1_def pedir_def findById_def save_def
      js_or_def Let_def)

section \<open>Facts about requests that the store covers\<close>








subsection \<open>A sale whose items the stock covers\<close>








subsection \<open>Requests with a quantity below one\<close>








subsection \<open>Creating a product\<close>






subsection \<open>The handlers keep the stored products valid\<close>

lemma list_all_update: "list_all P ps \<Longrightarrow> P (i, d) \<Longrightarrow> list_all P (AList.update i d ps)"
  by (induction ps) auto

lemma productos_validos_save:
  assumes "productos_validos ps" and "findById ps i = Some p"
  shows "productos_validos (save i (p\<lparr>stock := x\<rparr>) ps)"
proof -
  from assms have "codigo p \<noteq> [] \<and> nombre p \<noteq> []"
    by (auto simp: productos_validos_def list_all_iff findById_def dest: map_of_SomeD)
  with assms(1) show ?thesis
    unfolding productos_validos_def save_def
    by (intro list_all_update) simp_all
qed

lemma compras_loop_validos:
  "compras_loop ps its tot acc = (ps', r) \<Longrightarrow> productos_validos ps \<Longrightarrow> productos_validos ps'"
proof (induction its arbitrary: ps tot acc)
  case Nil
  then show ?case by simp
next
  case (Cons it its)
  show ?case
  proof (cases "findById ps (item_productoId it)")
    case None
    with Cons.prems show ?thesis by simp
  next
    case (Some p)
    from Cons.prems(2) Some
    have "productos_validos (save (item_productoId it) (p\<lparr>stock := stock p + item_cantidad it\<rparr>) ps)"
      by (rule productos_validos_save)
    with Some Cons.prems(1) show ?thesis
      by (auto intro: Cons.IH)
  qed
qed

lemma ventas_loop_p001_validos:
  "ventas_loop_p001 ps its tot acc = (ps', r) \<Longrightarrow> productos_validos ps \<Longrightarrow>
     productos_validos ps'"
proof (induction its arbitrary: ps tot acc)
  case Nil
  then show ?case by simp
next
  case (Cons it its)
  show ?case
  proof (cases "findById ps (item_productoId it)")
    case None
    with Cons.prems show ?thesis by simp
  next
    case (Some p)
    from Cons.prems(2) Some
    have "productos_validos (save (item_productoId it) (p\<lparr>stock := stock p - item_cantidad it\<rparr>) ps)"
      by (rule productos_validos_save)
    with Some Cons.prems show ?thesis
      by (cases "stock p < item_cantidad it") (auto intro: Cons.IH)
  qed
qed

lemma ventas_loop_p000_validos:
  "ventas_loop_p000 ps its tot acc = (ps', r) \<Longrightarrow> productos_validos ps \<Longrightarrow>
     productos_validos ps'"
proof (induction its arbitrary: ps tot acc)
  case Nil
  then show ?case by simp
next
  case (Cons it its)
  show ?case
  proof (cases "findById ps (item_productoId it)")
    case None
    with Cons.prems show ?thesis by simp
  next
    case (Some p)
    from Cons.prems(2) Some
    have "productos_validos (save (item_productoId it) (p\<lparr>stock := stock p - item_cantidad it\<rparr>) ps)"
      by (rule productos_validos_save)
    with Some Cons.prems show ?thesis
      by (cases "stock p < item_cantidad it") (auto intro: Cons.IH)
  qed
qed

lemma post_productos_validos:
  "productos_validos (Producto s) \<Longrightarrow>
     productos_validos (Producto (fst (post_productos upload s body)))"
  by (auto simp: post_productos_def try_post_productos_def Let_def productos_validos_def
      split: option.splits)

lemma patch_stock_validos:
  "productos_validos (Producto s) \<Longrightarrow> productos_validos (Producto (fst (patch_stock s i d)))"
  by (auto simp: patch_stock_def Let_def productos_validos_save split: option.splits)

section \<open>The claims\<close>

subsection \<open>C1: the source of the unit price\<close>

text \<open>
  Claim C1, as the code has it. A sale recorded by \<^verbatim>\<open>POST /api/ventas\<close> of part_001 prices every
  line with the sale price of the referenced product (the price the product has when the call
  starts: the loop changes stocks only), and its result does not depend on the unit prices of the
  request, whatever they are replaced with. The \<^verbatim>\<open>POST /api/ventas\<close> of part_000 and both
  \<^verbatim>\<open>POST /api/compras\<close> store the unit price of the request and compute the subtotal from it.
\<close>

theorem C1_unit_price:
  "(post_ventas_p001 s its c = (s', Json v) \<longrightarrow>
      list_all2 (\<lambda>it l. \<exists>p. findById (Producto s) (item_productoId it) = Some p \<and>
         precioUnitario l = precioVenta p \<and> subtotal l = precioVenta p * item_cantidad it)
        its (productos v)) \<and>
   post_ventas_p001 s (map (\<lambda>it. it\<lparr>item_precioUnitario := f it\<rparr>) its) c =
     post_ventas_p001 s its c \<and>
   (post_ventas_p000 s its c = (s', Json v) \<longrightarrow>
      list_all2 (\<lambda>it l. precioUnitario l = item_precioUnitario it \<and>
         subtotal l = item_precioUnitario it * item_cantidad it) its (productos v)) \<and>
   (post_compras_p000 s its c = (s', Json w) \<longrightarrow>
      list_all2 (\<lambda>it l. precioUnitario l = item_precioUnitario it \<and>
         subtotal l = item_precioUnitario it * item_cantidad it) its (productos w)) \<and>
   (post_compras_server s its c = (s', Json w) \<longrightarrow>
      list_all2 (\<lambda>it l. precioUnitario l = item_precioUnitario it \<and>
         subtotal l = item_precioUnitario it * item_cantidad it) its (productos w))"
proof (intro conjI impI)
  assume a: "post_ventas_p001 s its c = (s', Json v)"
  from post_ventas_p001_Json [OF a] obtain ps' t where
    "ventas_loop_p001 (Producto s) its 0 [] = (ps', Inr (t, productos v))"
    by blast
  from ventas_loop_p001_lines [OF this]
  have "list_all2 (linea_de_venta (Producto s)) its (productos v)"
    by simp
  then show "list_all2 (\<lambda>it l. \<exists>p. findById (Producto s) (item_productoId it) = Some p \<and>
         precioUnitario l = precioVenta p \<and> subtotal l = precioVenta p * item_cantidad it)
        its (productos v)"
    by (rule linea_de_venta_price)
next
  show "post_ventas_p001 s (map (\<lambda>it. it\<lparr>item_precioUnitario := f it\<rparr>) its) c =
     post_ventas_p001 s its c"
    by (simp add: post_ventas_p001_def ventas_loop_p001_ignores_price)
next
  assume a: "post_ventas_p000 s its c = (s', Json v)"
  from post_ventas_p000_Json [OF a] obtain ps' t where
    "ventas_loop_p000 (Producto s) its 0 [] = (ps', Inr (t, productos v))"
    by blast
  from ventas_loop_p000_lines [OF this]
  have "list_all2 (linea_de_compra (Producto s)) its (productos v)"
    by simp
  then show "list_all2 (\<lambda>it l. precioUnitario l = item_precioUnitario it \<and>
         subtotal l = item_precioUnitario it * item_cantidad it) its (productos v)"
    by (rule linea_de_compra_price)
next
  assume a: "post_compras_p000 s its c = (s', Json w)"
  from post_compras_p000_Json [OF a] obtain ps' t where
    "compras_loop (Producto s) its 0 [] = (ps', Inr (t, productos w))"
    by blast
  from compras_loop_lines [OF this]
  have "list_all2 (linea_de_compra (Producto s)) its (productos w)"
    by simp
  then show "list_all2 (\<lambda>it l. precioUnitario l = item_precioUnitario it \<and>
         subtotal l = item_precioUnitario it * item_cantidad it) its (productos w)"
    by (rule linea_de_compra_price)
next
  assume a: "post_compras_server s its c = (s', Json w)"
  from post_compras_server_Json [OF a] obtain ps' t where
    "compras_loop (Producto s) its 0 [] = (ps', Inr (t, productos w))"
    by blast
  from compras_loop_lines [OF this]
  have "list_all2 (linea_de_compra (Producto s)) its (productos w)"
    by simp
  then show "list_all2 (\<lambda>it l. precioUnitario l = item_precioUnitario it \<and>
         subtotal l = item_precioUnitario it * item_cantidad it) its (productos w)"
    by (rule linea_de_compra_price)
qed

text \<open>
  Claim C1 as stated ("for every Sale the unit price is the product's sale price") fails on the
  sale handler of part_000: product A1 sells at 100, the request says 5, and the line that is
  stored has unit price 5 and subtotal 15.
\<close>

theorem C1_counterexample:
  "precioVenta producto_A1 = 100 \<and>
   item_precioUnitario (pedir 1 3 5) = 5 \<and>
   post_ventas_p000 db_A1 [pedir 1 3 5] None =
     (\<lparr>Producto = [(1, producto_A1\<lparr>stock := 7\<rparr>)],
       Venta = [\<lparr>productos = [\<lparr>productoId = 1, linea_codigo = ''A1'', linea_nombre = ''Tornillo'',
                   cantidad = 3, precioUnitario = 5, subtotal = 15\<rparr>],
                 total = 18.15, iva = 3.15, cliente = ''Desconocido''\<rparr>],
       Compra = []\<rparr>,
      Json \<lparr>productos = [\<lparr>productoId = 1, linea_codigo = ''A1'', linea_nombre = ''Tornillo'',
                   cantidad = 3, precioUnitario = 5, subtotal = 15\<rparr>],
            total = 18.15, iva = 3.15, cliente = ''Desconocido''\<rparr>)"
  by (intro conjI venta_p000_A1_3) (simp_all add: producto_A1_def pedir_def)

text \<open>
  The theorem of C1 at the sale and the purchase of 3 units of A1 with a requested price of 5.
\<close>

theorem C1_witness:
  "list_all2 (\<lambda>it l. \<exists>p. findById (Producto db_A1) (item_productoId it) = Some p \<and>
       precioUnitario l = precioVenta p \<and> subtotal l = precioVenta p * item_cantidad it)
     [pedir 1 3 5]
     [\<lparr>productoId = 1, linea_codigo = ''A1'', linea_nombre = ''Tornillo'',
         cantidad = 3, precioUnitario = 100, subtotal = 300\<rparr>] \<and>
   post_ventas_p001 db_A1 (map (\<lambda>it. it\<lparr>item_precioUnitario := 999\<rparr>) [pedir 1 3 5]) None =
     post_ventas_p001 db_A1 [pedir 1 3 5] None \<and>
   list_all2 (\<lambda>it l. precioUnitario l = item_precioUnitario it \<and>
       subtotal l = item_precioUnitario it * item_cantidad it)
     [pedir 1 3 5]
     [\<lparr>productoId = 1, linea_codigo = ''A1'', linea_nombre = ''Tornillo'',
         cantidad = 3, precioUnitario = 5, subtotal = 15\<rparr>]"
proof -
  note p001 = C1_unit_price [where s = db_A1 and its = "[pedir 1 3 5]" and c = None
      and f = "\<lambda>_. 999"
      and s' = "\<lparr>Producto = [(1, producto_A1\<lparr>stock := 7\<rparr>)],
       Venta = [\<lparr>productos = [\<lparr>productoId = 1, linea_codigo = ''A1'', linea_nombre = ''Tornillo'',
                   cantidad = 3, precioUnitario = 100, subtotal = 300\<rparr>],
                 total = 363, iva = 63, cliente = ''Mostrador''\<rparr>],
       Compra = []\<rparr>"
      and v = "\<lparr>productos = [\<lparr>productoId = 1, linea_codigo = ''A1'', linea_nombre = ''Tornillo'',
                   cantidad = 3, precioUnitario = 100, subtotal = 300\<rparr>],
            total = 363, iva = 63, cliente = ''Mostrador''\<rparr>"]
  note p000 = C1_unit_price [where s = db_A1 and its = "[pedir 1 3 5]" and c = None
      and s' = "\<lparr>Producto = [(1, producto_A1\<lparr>stock := 7\<rparr>)],
       Venta = [\<lparr>productos = [\<lparr>productoId = 1, linea_codigo = ''A1'', linea_nombre = ''Tornillo'',
                   cantidad = 3, precioUnitario = 5, subtotal = 15\<rparr>],
                 total = 18.15, iva = 3.15, cliente = ''Desconocido''\<rparr>],
       Compra = []\<rparr>"
      and v = "\<lparr>productos = [\<lparr>productoId = 1, linea_codigo = ''A1'', linea_nombre = ''Tornillo'',
                   cantidad = 3, precioUnitario = 5, subtotal = 15\<rparr>],
            total = 18.15, iva = 3.15, cliente = ''Desconocido''\<rparr>"]
  note compras = C1_unit_price [where s = db_A1 and its = "[pedir 1 3 5]" and c = None
      and s' = "\<lparr>Producto = [(1, producto_A1\<lparr>stock := 13\<rparr>)], Venta = [],
       Compra = [\<lparr>productos = [\<lparr>productoId = 1, linea_codigo = ''A1'', linea_nombre = ''Tornillo'',
                   cantidad = 3, precioUnitario = 5, subtotal = 15\<rparr>],
                 total = 18.15, iva = 3.15, compra_proveedor = ''Desconocido''\<rparr>]\<rparr>"
      and w = "\<lparr>productos = [\<lparr>productoId = 1, linea_codigo = ''A1'', linea_nombre = ''Tornillo'',
                   cantidad = 3, precioUnitario = 5, subtotal = 15\<rparr>],
            total = 18.15, iva = 3.15, compra_proveedor = ''Desconocido''\<rparr>"]
  from p001 p000 compras venta_A1_3 venta_p000_A1_3 compra_p000_A1_3 compra_server_A1_3
  show ?thesis
    by simp
qed

subsection \<open>C3: a sale that asks for more than the stock\<close>

text \<open>
  Claim C3, amended. When the sale loop has accepted the items \<open>pre\<close> and reaches an item whose
  quantity exceeds the stock its product has at that moment, the handler answers 400 (stock
  insuficiente), saves no sale, and leaves the products as \<open>pre\<close> left them: the item and the
  items after it change nothing. For a request of that one item the whole store is as before.
\<close>

theorem C3_insufficient_stock:
  "(ventas_loop_p001 (Producto s) pre 0 [] = (ps', Inr r) \<and>
    findById ps' (item_productoId it) = Some p \<and> stock p < item_cantidad it \<longrightarrow>
      post_ventas_p001 s (pre @ it # post) c =
        (s\<lparr>Producto := ps'\<rparr>, Status_json 400 (Stock_insuficiente_para (nombre p)))) \<and>
   (findById (Producto s) (item_productoId it) = Some p \<and> stock p < item_cantidad it \<longrightarrow>
      post_ventas_p001 s [it] c = (s, Status_json 400 (Stock_insuficiente_para (nombre p)))) \<and>
   (ventas_loop_p000 (Producto s) pre 0 [] = (ps', Inr r) \<and>
    findById ps' (item_productoId it) = Some p \<and> stock p < item_cantidad it \<longrightarrow>
      post_ventas_p000 s (pre @ it # post) c =
        (s\<lparr>Producto := ps'\<rparr>, Status_json 400 Stock_insuficiente)) \<and>
   (findById (Producto s) (item_productoId it) = Some p \<and> stock p < item_cantidad it \<longrightarrow>
      post_ventas_p000 s [it] c = (s, Status_json 400 Stock_insuficiente))"
proof (intro conjI impI)
  assume "ventas_loop_p001 (Producto s) pre 0 [] = (ps', Inr r) \<and>
    findById ps' (item_productoId it) = Some p \<and> stock p < item_cantidad it"
  then have "ventas_loop_p001 (Producto s) (pre @ it # post) 0 [] =
      (ps', Inl (400, Stock_insuficiente_para (nombre p)))"
    by (intro ventas_loop_p001_short [where p = p]) simp_all
  then show "post_ventas_p001 s (pre @ it # post) c =
      (s\<lparr>Producto := ps'\<rparr>, Status_json 400 (Stock_insuficiente_para (nombre p)))"
    by (rule post_ventas_p001_Inl)
next
  assume "findById (Producto s) (item_productoId it) = Some p \<and> stock p < item_cantidad it"
  then have "ventas_loop_p001 (Producto s) [it] 0 [] =
      (Producto s, Inl (400, Stock_insuficiente_para (nombre p)))"
    by simp
  from post_ventas_p001_Inl [OF this]
  show "post_ventas_p001 s [it] c = (s, Status_json 400 (Stock_insuficiente_para (nombre p)))"
    by simp
next
  assume "ventas_loop_p000 (Producto s) pre 0 [] = (ps', Inr r) \<and>
    findById ps' (item_productoId it) = Some p \<and> stock p < item_cantidad it"
  then have "ventas_loop_p000 (Producto s) (pre @ it # post) 0 [] =
      (ps', Inl (400, Stock_insuficiente))"
    by (intro ventas_loop_p000_short [where p = p]) simp_all
  then show "post_ventas_p000 s (pre @ it # post) c =
      (s\<lparr>Producto := ps'\<rparr>, Status_json 400 Stock_insuficiente)"
    by (rule post_ventas_p000_Inl)
next
  assume "findById (Producto s) (item_productoId it) = Some p \<and> stock p < item_cantidad it"
  then have "ventas_loop_p000 (Producto s) [it] 0 [] =
      (Producto s, Inl (400, Stock_insuficiente))"
    by simp
  from post_ventas_p000_Inl [OF this]
  show "post_ventas_p000 s [it] c = (s, Status_json 400 Stock_insuficiente)"
    by simp
qed

text \<open>
  Claim C3 as stated ("every Sale request containing an item whose quantity exceeds the stock
  fails with InsufficientStock") fails when an earlier item names a missing product: the request
  asks 20 units of A1 (stock 10) after an item for the unknown product 2, and the answer is 404.
\<close>

theorem C3_counterexample:
  "post_ventas_p001 db_A1 [pedir 2 1 100, pedir 1 20 100] None =
     (db_A1, Status_json 404 Producto_no_encontrado) \<and>
   stock_of (Producto db_A1) 1 = Some 10 \<and>
   item_cantidad (pedir 1 20 100) = 20"
  by (simp add: post_ventas_p001_def db_A1_def producto_A1_def pedir_def findById_def stock_of_def)

text \<open>
  The theorem of C3 at the scenario of the claim (20 units against stock 10: status 400, store
  unchanged) and at a three-item sale of A1 (3, then 8, then 1) that stops at the second item
  with the stock at 7.
\<close>

theorem C3_witness:
  "findById (Producto db_A1) 1 = Some producto_A1 \<and> stock producto_A1 = 10 \<and>
   post_ventas_p001 db_A1 [pedir 1 20 100] None =
     (db_A1, Status_json 400 (Stock_insuficiente_para ''Tornillo'')) \<and>
   post_ventas_p000 db_A1 [pedir 1 20 100] None = (db_A1, Status_json 400 Stock_insuficiente) \<and>
   ventas_loop_p001 (Producto db_A1) [pedir 1 3 100] 0 [] =
     ([(1, producto_A1\<lparr>stock := 7\<rparr>)],
      Inr (300, [\<lparr>productoId = 1, linea_codigo = ''A1'', linea_nombre = ''Tornillo'',
                  cantidad = 3, precioUnitario = 100, subtotal = 300\<rparr>])) \<and>
   post_ventas_p001 db_A1 [pedir 1 3 100, pedir 1 8 100, pedir 1 1 100] None =
     (db_A1\<lparr>Producto := [(1, producto_A1\<lparr>stock := 7\<rparr>)]\<rparr>,
      Status_json 400 (Stock_insuficiente_para ''Tornillo'')) \<and>
   ventas_loop_p000 (Producto db_A1) [pedir 1 3 100] 0 [] =
     ([(1, producto_A1\<lparr>stock := 7\<rparr>)],
      Inr (300, [\<lparr>productoId = 1, linea_codigo = ''A1'', linea_nombre = ''Tornillo'',
                  cantidad = 3, precioUnitario = 100, subtotal = 300\<rparr>])) \<and>
   post_ventas_p000 db_A1 [pedir 1 3 100, pedir 1 8 100, pedir 1 1 100] None =
     (db_A1\<lparr>Producto := [(1, producto_A1\<lparr>stock := 7\<rparr>)]\<rparr>, Status_json 400 Stock_insuficiente)"
proof -
  have f: "findById (Producto db_A1) 1 = Some producto_A1"
    by (simp add: db_A1_def findById_def)
  have st: "stock producto_A1 = 10" "nombre producto_A1 = ''Tornillo''"
    by (simp_all add: producto_A1_def)
  have l1: "ventas_loop_p001 (Producto db_A1) [pedir 1 3 100] 0 [] =
     ([(1, producto_A1\<lparr>stock := 7\<rparr>)],
      Inr (300, [\<lparr>productoId = 1, linea_codigo = ''A1'', linea_nombre = ''Tornillo'',
                  cantidad = 3, precioUnitario = 100, subtotal = 300\<rparr>]))"
    by (simp add: db_A1_def producto_A1_def pedir_def findById_def save_def)
  have l0: "ventas_loop_p000 (Producto db_A1) [pedir 1 3 100] 0 [] =
     ([(1, producto_A1\<lparr>stock := 7\<rparr>)],
      Inr (300, [\<lparr>productoId = 1, linea_codigo = ''A1'', linea_nombre = ''Tornillo'',
                  cantidad = 3, precioUnitario = 100, subtotal = 300\<rparr>]))"
    by (simp add: db_A1_def producto_A1_def pedir_def findById_def save_def)
  have f7: "findById [(1, producto_A1\<lparr>stock := 7\<rparr>)] (item_productoId (pedir 1 8 100)) =
      Some (producto_A1\<lparr>stock := 7\<rparr>)"
    "stock (producto_A1\<lparr>stock := 7\<rparr>) < item_cantidad (pedir 1 8 100)"
    "nombre (producto_A1\<lparr>stock := 7\<rparr>) = ''Tornillo''"
    by (simp_all add: findById_def pedir_def producto_A1_def)
  have q: "item_productoId (pedir 1 20 100) = 1" "stock producto_A1 < item_cantidad (pedir 1 20 100)"
    by (simp_all add: pedir_def producto_A1_def)
  note single = C3_insufficient_stock [of db_A1 "[]" "[]" "(0, [])" "pedir 1 20 100" producto_A1 "[]" None]
  note multi = C3_insufficient_stock [of db_A1 "[pedir 1 3 100]" "[(1, producto_A1\<lparr>stock := 7\<rparr>)]"
      "(300, [\<lparr>productoId = 1, linea_codigo = ''A1'', linea_nombre = ''Tornillo'',
                  cantidad = 3, precioUnitario = 100, subtotal = 300\<rparr>])"
      "pedir 1 8 100" "producto_A1\<lparr>stock := 7\<rparr>" "[pedir 1 1 100]" None]
  from single f st q multi l1 l0 f7 show ?thesis
    by simp
qed

subsection \<open>C4: a request that names a missing product\<close>




subsection \<open>C5: purchases and the stock level\<close>




subsection \<open>C6: manual stock adjustment clamps at zero\<close>

text \<open>
  Claim C6. For a product that exists and any signed \<open>d\<close>, \<^verbatim>\<open>PATCH /api/productos/:id/stock\<close>
  stores and returns the product with stock \<open>max 0 (stock + d)\<close>: exactly zero when \<open>stock + d\<close>
  is negative. The sale handler, asked for more than the stock, rejects with status 400 and
  changes nothing.
\<close>

theorem C6_adjust_stock_clamps:
  "findById (Producto s) i = Some p \<longrightarrow>
     patch_stock s i d =
       (s\<lparr>Producto := save i (p\<lparr>stock := max 0 (stock p + d)\<rparr>) (Producto s)\<rparr>,
        Json (p\<lparr>stock := max 0 (stock p + d)\<rparr>)) \<and>
     stock_of (Producto (fst (patch_stock s i d))) i = Some (max 0 (stock p + d)) \<and>
     (stock p + d < 0 \<longrightarrow> stock_of (Producto (fst (patch_stock s i d))) i = Some 0) \<and>
     (stock p < q \<longrightarrow>
        post_ventas_p001 s [pedir i q x] c =
          (s, Status_json 400 (Stock_insuficiente_para (nombre p))))"
  by (auto simp: patch_stock_def Let_def max_def stock_of_def findById_save
      post_ventas_p001_def pedir_def)

text \<open>
  The scenario of claim C6: an adjustment of -1000000 on a stock of 5 gives stock 0; an adjustment
  of 3 gives 8; a sale of 1000000 units is rejected.
\<close>

theorem C6_witness:
  "findById (Producto db_A1_5) 1 = Some (producto_A1\<lparr>stock := 5\<rparr>) \<and>
   patch_stock db_A1_5 1 (- 1000000) =
     (db_A1_5\<lparr>Producto := [(1, producto_A1\<lparr>stock := 0\<rparr>)]\<rparr>, Json (producto_A1\<lparr>stock := 0\<rparr>)) \<and>
   stock_of (Producto (fst (patch_stock db_A1_5 1 (- 1000000)))) 1 = Some 0 \<and>
   patch_stock db_A1_5 1 3 =
     (db_A1_5\<lparr>Producto := [(1, producto_A1\<lparr>stock := 8\<rparr>)]\<rparr>, Json (producto_A1\<lparr>stock := 8\<rparr>)) \<and>
   post_ventas_p001 db_A1_5 [pedir 1 1000000 100] None =
     (db_A1_5, Status_json 400 (Stock_insuficiente_para ''Tornillo''))"
proof -
  have f: "findById (Producto db_A1_5) 1 = Some (producto_A1\<lparr>stock := 5\<rparr>)"
    by (simp add: db_A1_5_def findById_def)
  have g: "save 1 (producto_A1\<lparr>stock := 0\<rparr>) (Producto db_A1_5) = [(1, producto_A1\<lparr>stock := 0\<rparr>)]"
    "save 1 (producto_A1\<lparr>stock := 8\<rparr>) (Producto db_A1_5) = [(1, producto_A1\<lparr>stock := 8\<rparr>)]"
    "nombre (producto_A1\<lparr>stock := 5\<rparr>) = ''Tornillo''"
    by (simp_all add: db_A1_5_def save_def producto_A1_def)
  from C6_adjust_stock_clamps [of db_A1_5 1 "producto_A1\<lparr>stock := 5\<rparr>" "- 1000000" 1000000 100 None]
    C6_adjust_stock_clamps [of db_A1_5 1 "producto_A1\<lparr>stock := 5\<rparr>" 3 1000000 100 None] f g
  show ?thesis by (simp add: stock_of_def findById_def)
qed

subsection \<open>C7: quantities below one\<close>




subsection \<open>C8: the status of an error response\<close>




subsection \<open>C9: the purchase loop checks nothing about the quantity\<close>




subsection \<open>C10: the empty request\<close>

text \<open>
  Claim C10. With an empty list of items and no counterparty, each handler changes no product and
  stores and returns a document with no lines, iva 0, total 0 and the default label: "Mostrador"
  for the sale of part_001, "Desconocido" for the sale of part_000 and for both purchases.
\<close>

theorem C10_empty_request:
  "post_ventas_p001 s [] None =
     (s\<lparr>Venta := Venta s @ [\<lparr>productos = [], total = 0, iva = 0, cliente = ''Mostrador''\<rparr>]\<rparr>,
      Json \<lparr>productos = [], total = 0, iva = 0, cliente = ''Mostrador''\<rparr>) \<and>
   post_ventas_p000 s [] None =
     (s\<lparr>Venta := Venta s @ [\<lparr>productos = [], total = 0, iva = 0, cliente = ''Desconocido''\<rparr>]\<rparr>,
      Json \<lparr>productos = [], total = 0, iva = 0, cliente = ''Desconocido''\<rparr>) \<and>
   post_compras_p000 s [] None =
     (s\<lparr>Compra := Compra s @
          [\<lparr>productos = [], total = 0, iva = 0, compra_proveedor = ''Desconocido''\<rparr>]\<rparr>,
      Json \<lparr>productos = [], total = 0, iva = 0, compra_proveedor = ''Desconocido''\<rparr>) \<and>
   post_compras_server s [] None =
     (s\<lparr>Compra := Compra s @
          [\<lparr>productos = [], total = 0, iva = 0, compra_proveedor = ''Desconocido''\<rparr>]\<rparr>,
      Json \<lparr>productos = [], total = 0, iva = 0, compra_proveedor = ''Desconocido''\<rparr>)"
  by (simp add: post_ventas_p001_def post_ventas_p000_def post_compras_p000_def
      post_compras_server_def js_or_def validate_p000_def Let_def)

text \<open>
  The theorem of C10 on the store that holds A1.
\<close>

theorem C10_witness:
  "post_ventas_p001 db_A1 [] None =
     (\<lparr>Producto = [(1, producto_A1)],
       Venta = [\<lparr>productos = [], total = 0, iva = 0, cliente = ''Mostrador''\<rparr>], Compra = []\<rparr>,
      Json \<lparr>productos = [], total = 0, iva = 0, cliente = ''Mostrador''\<rparr>) \<and>
   post_compras_server db_A1 [] None =
     (\<lparr>Producto = [(1, producto_A1)], Venta = [],
       Compra = [\<lparr>productos = [], total = 0, iva = 0, compra_proveedor = ''Desconocido''\<rparr>]\<rparr>,
      Json \<lparr>productos = [], total = 0, iva = 0, compra_proveedor = ''Desconocido''\<rparr>)"
  using C10_empty_request [of db_A1] by (simp add: db_A1_def)

end
